theory Spec2Isabelle
  imports Main "HOL-Library.AList"
begin

section \<open>Data model (models.py)\<close>

text \<open>
  The enums of \<^verbatim>\<open>models.py\<close> are datatypes, the dataclasses are records.  Prices are
  Python floats; the development never uses a law of arithmetic on them, so the price
  type is a type parameter \<open>'p\<close> that only has to offer \<open>+\<close> and \<open>-\<close>.  The fields
  \<^verbatim>\<open>timestamp\<close> and \<^verbatim>\<open>created_at\<close> (wall-clock time of construction) are left out: nothing
  in the trade engine reads them.
\<close>

datatype OrderStatus = PENDING | TRIGGER_PENDING | PARTIALLY_FILLED | FILLED | CANCELLED | REJECTED

datatype OrderType = MARKET | LIMIT | STOP_LOSS | TARGET

datatype TradeSide = BUY | SELL

record 'p Order =
  order_id :: string
  symbol :: string
  order_type :: OrderType
  side :: TradeSide
  quantity :: int
  price :: "'p option"
  trigger_price :: "'p option"
  status :: OrderStatus
  filled_quantity :: int
  average_price :: "'p option"

record 'p Trade =
  trade_id :: string
  symbol :: string
  side :: TradeSide
  quantity :: int
  entry_price :: 'p
  stop_loss_points :: 'p
  target_points :: 'p
  market_order :: "'p Order"
  stop_loss_order :: "'p Order"
  target_order :: "'p Order"
  active :: bool

record TradeResult =
  success :: bool
  message :: string
  trade_id :: "string option"
  order_ids :: "string list option"

section \<open>The environment: broker gateway, event loop, log\<close>

text \<open>
  The broker gateway (\<^verbatim>\<open>KotakNeoClient\<close>) is an external collaborator.  Its three
  methods used by the engine catch every exception themselves and answer
  \<^verbatim>\<open>Optional[str]\<close>, \<^verbatim>\<open>Optional[Dict]\<close> and \<^verbatim>\<open>bool\<close>; here they are arbitrary functions
  over a hidden environment state \<open>'g\<close>.  The same hidden state answers
  \<^verbatim>\<open>uuid.uuid4()\<close> and decides, at every \<^verbatim>\<open>asyncio.sleep\<close>, whether the sleeping task
  is resumed normally or has been cancelled meanwhile (\<^verbatim>\<open>CancelledError\<close> is then
  raised at the \<^verbatim>\<open>await\<close>).

  A status dictionary is a map from keys to values; the engine only reads the key
  \<^verbatim>\<open>'status'\<close>.
\<close>

type_synonym status_dict = "string \<rightharpoonup> string"

record ('g, 'p) Env =
  gw_place_order :: "'p Order \<Rightarrow> 'g \<Rightarrow> string option \<times> 'g"
  gw_get_order_status :: "string \<Rightarrow> 'g \<Rightarrow> status_dict option \<times> 'g"
  gw_cancel_order :: "string \<Rightarrow> 'g \<Rightarrow> bool \<times> 'g"
  uuid4 :: "'g \<Rightarrow> string \<times> 'g"
  sleep_cancelled :: "'g \<Rightarrow> bool \<times> 'g"

datatype lock_name = TradeLock | StreamLock

datatype log_level = INFO | WARNING | ERROR

text \<open>One constructor for each \<^verbatim>\<open>logger\<close> call of \<^verbatim>\<open>trade.py\<close> and \<^verbatim>\<open>trade_manager.py\<close>.\<close>

datatype log_msg =
    StartingMonitoring string
    \<comment> \<open>\<^verbatim>\<open>Starting order monitoring for trade {trade_id}\<close>\<close>
  | StopLossFilled string string
    \<comment> \<open>\<^verbatim>\<open>Stop loss order {order_id} filled for trade {trade_id}\<close>\<close>
  | TargetCancelledDueToSL string string
    \<comment> \<open>\<^verbatim>\<open>Target order {order_id} cancelled due to SL fill for trade {trade_id}\<close>\<close>
  | FailedToCancelTarget string
    \<comment> \<open>\<^verbatim>\<open>Failed to cancel target order {order_id}\<close>\<close>
  | TargetFilled string string
    \<comment> \<open>\<^verbatim>\<open>Target order {order_id} filled for trade {trade_id}\<close>\<close>
  | StopLossCancelledDueToTarget string string
    \<comment> \<open>\<^verbatim>\<open>Stop loss order {order_id} cancelled due to target fill for trade {trade_id}\<close>\<close>
  | FailedToCancelStopLoss string
    \<comment> \<open>\<^verbatim>\<open>Failed to cancel stop loss order {order_id}\<close>\<close>
  | MonitoringEnded string
    \<comment> \<open>\<^verbatim>\<open>Order monitoring ended for trade {trade_id}\<close>\<close>
  | CleanedUp string
    \<comment> \<open>\<^verbatim>\<open>Cleaned up resources for trade {trade_id}\<close>\<close>
  | StartedTrade string string
    \<comment> \<open>\<^verbatim>\<open>Started trade {trade_id} for {symbol}\<close>\<close>
  | AddedTrade string
    \<comment> \<open>\<^verbatim>\<open>Added trade {trade_id} to active trades\<close>\<close>
  | RemovedTrade string
    \<comment> \<open>\<^verbatim>\<open>Removed trade {trade_id} from active trades\<close>\<close>
  | CleaningUpManager
    \<comment> \<open>\<^verbatim>\<open>Cleaning up trade manager resources...\<close>\<close>
  | ManagerCleanupCompleted
    \<comment> \<open>\<^verbatim>\<open>Trade manager cleanup completed\<close>\<close>
  | StreamError string
    \<comment> \<open>\<^verbatim>\<open>Error in LTP stream for {symbol}: ...\<close>\<close>

text \<open>
  Everything the engine does to the outside is appended to a trace, in program order:
  gateway calls with the answer they got, sleeps (duration in milliseconds), cancelling
  and awaiting another task, taking and releasing one of the two registry locks of the
  manager, and log records.
\<close>

datatype 'p event =
    PlaceOrder "'p Order" "string option"
  | GetOrderStatus string "status_dict option"
  | CancelOrder string bool
  | Sleep nat
  | CancelTask string
  | AwaitTask string
  | Acquire lock_name
  | Release lock_name
  | Log log_level log_msg

record ('g, 'p) World =
  env_state :: 'g
  trace :: "'p event list"

definition emit :: "'p event \<Rightarrow> ('g, 'p) World \<Rightarrow> ('g, 'p) World" where
  "emit e w = w\<lparr>trace := trace w @ [e]\<rparr>"

definition client_place_order ::
  "('g, 'p) Env \<Rightarrow> 'p Order \<Rightarrow> ('g, 'p) World \<Rightarrow> string option \<times> ('g, 'p) World" where
  "client_place_order env order w =
     (let (r, g) = gw_place_order env order (env_state w)
      in (r, emit (PlaceOrder order r) (w\<lparr>env_state := g\<rparr>)))"

definition client_get_order_status ::
  "('g, 'p) Env \<Rightarrow> string \<Rightarrow> ('g, 'p) World \<Rightarrow> status_dict option \<times> ('g, 'p) World" where
  "client_get_order_status env oid w =
     (let (r, g) = gw_get_order_status env oid (env_state w)
      in (r, emit (GetOrderStatus oid r) (w\<lparr>env_state := g\<rparr>)))"

definition client_cancel_order ::
  "('g, 'p) Env \<Rightarrow> string \<Rightarrow> ('g, 'p) World \<Rightarrow> bool \<times> ('g, 'p) World" where
  "client_cancel_order env oid w =
     (let (r, g) = gw_cancel_order env oid (env_state w)
      in (r, emit (CancelOrder oid r) (w\<lparr>env_state := g\<rparr>)))"

text \<open>\<^verbatim>\<open>await asyncio.sleep(t)\<close>: the first component says whether \<^verbatim>\<open>CancelledError\<close> is raised.\<close>

definition asyncio_sleep ::
  "('g, 'p) Env \<Rightarrow> nat \<Rightarrow> ('g, 'p) World \<Rightarrow> bool \<times> ('g, 'p) World" where
  "asyncio_sleep env ms w =
     (let (c, g) = sleep_cancelled env (env_state w)
      in (c, emit (Sleep ms) (w\<lparr>env_state := g\<rparr>)))"

definition new_uuid :: "('g, 'p) Env \<Rightarrow> ('g, 'p) World \<Rightarrow> string \<times> ('g, 'p) World" where
  "new_uuid env w = (let (u, g) = uuid4 env (env_state w) in (u, w\<lparr>env_state := g\<rparr>))"

text \<open>
  The dataclass constructors with their \<^verbatim>\<open>__post_init__\<close>: an id given as \<^verbatim>\<open>None\<close> is
  replaced by a fresh uuid.  The defaults of \<^verbatim>\<open>Order\<close> are \<^verbatim>\<open>status = PENDING\<close>,
  \<^verbatim>\<open>filled_quantity = 0\<close>, \<^verbatim>\<open>average_price = None\<close>; the default of \<^verbatim>\<open>Trade\<close> is
  \<^verbatim>\<open>active = True\<close>.
\<close>

definition Order_init ::
  "('g, 'p) Env \<Rightarrow> string option \<Rightarrow> string \<Rightarrow> OrderType \<Rightarrow> TradeSide \<Rightarrow> int \<Rightarrow>
   'p option \<Rightarrow> 'p option \<Rightarrow> ('g, 'p) World \<Rightarrow> 'p Order \<times> ('g, 'p) World" where
  "Order_init env oid symb ty sd qty pr trig w =
     (let (i, w') = (case oid of None \<Rightarrow> new_uuid env w | Some i \<Rightarrow> (i, w))
      in (\<lparr>order_id = i, Order.symbol = symb, order_type = ty, Order.side = sd,
           Order.quantity = qty, price = pr, trigger_price = trig, status = PENDING,
           filled_quantity = 0, average_price = None\<rparr>, w'))"

definition Trade_init ::
  "('g, 'p) Env \<Rightarrow> string option \<Rightarrow> string \<Rightarrow> TradeSide \<Rightarrow> int \<Rightarrow> 'p \<Rightarrow> 'p \<Rightarrow> 'p \<Rightarrow>
   'p Order \<Rightarrow> 'p Order \<Rightarrow> 'p Order \<Rightarrow> ('g, 'p) World \<Rightarrow> 'p Trade \<times> ('g, 'p) World" where
  "Trade_init env tid symb sd qty entry slp tp mo slo tgo w =
     (let (i, w') = (case tid of None \<Rightarrow> new_uuid env w | Some i \<Rightarrow> (i, w))
      in (\<lparr>Trade.trade_id = i, Trade.symbol = symb, Trade.side = sd, Trade.quantity = qty,
           entry_price = entry, stop_loss_points = slp, target_points = tp,
           market_order = mo, stop_loss_order = slo, target_order = tgo,
           active = True\<rparr>, w'))"

definition TradeResult_init ::
  "bool \<Rightarrow> string \<Rightarrow> string option \<Rightarrow> string list option \<Rightarrow> TradeResult" where
  "TradeResult_init s m t os =
     \<lparr>success = s, message = m, TradeResult.trade_id = t, order_ids = os\<rparr>"

section \<open>Trade executor (trade.py)\<close>

text \<open>
  Python dictionaries keep insertion order, and \<^verbatim>\<open>cancel_all_trades\<close> iterates over the
  keys, so a dictionary is an association list: \<open>AList.update\<close> overwrites in place or
  appends, \<open>AList.delete\<close> removes the key, \<open>map_of\<close> looks a key up.  Every
  dictionary of the engine starts empty and is changed by these two operations only,
  which keep the keys distinct, so its \<^verbatim>\<open>len\<close> is the length of the list.

  A monitoring task is the pending coroutine \<^verbatim>\<open>_monitor_oco_orders(trade)\<close>, which owns
  its \<^verbatim>\<open>Trade\<close>, together with the done callbacks registered on it.  The only callback
  the executor registers is \<^verbatim>\<open>lambda t: self._cleanup_trade_resources(trade.trade_id)\<close>.
\<close>

datatype callback = CleanupTradeResources string

record 'p Task =
  task_trade :: "'p Trade"
  done_callbacks :: "callback list"

record 'p TradeExecutor =
  active_orders :: "(string \<times> 'p Task) list"
  trade_locks :: "(string \<times> unit) list"

datatype CancelledError = CancelledError

text \<open>Python truthiness of an \<^verbatim>\<open>Optional[str]\<close>: \<^verbatim>\<open>None\<close> and the empty string are falsy.\<close>

fun truthy :: "string option \<Rightarrow> bool" where
  "truthy None = False"
| "truthy (Some s) = (s \<noteq> [])"

text \<open>The string held by an \<^verbatim>\<open>Optional[str]\<close>; only used on truthy values.\<close>

fun str_of :: "string option \<Rightarrow> string" where
  "str_of None = []"
| "str_of (Some s) = s"

definition start_order_monitoring ::
  "'p Trade \<Rightarrow> 'p TradeExecutor \<Rightarrow> 'p TradeExecutor" where
  "start_order_monitoring trade ex =
     (let ex1 = ex\<lparr>trade_locks := AList.update (Trade.trade_id trade) () (trade_locks ex)\<rparr>;
          monitoring_task = \<lparr>task_trade = trade,
             done_callbacks = [CleanupTradeResources (Trade.trade_id trade)]\<rparr>
      in ex1\<lparr>active_orders :=
               AList.update (Trade.trade_id trade) monitoring_task (active_orders ex1)\<rparr>)"

text \<open>
  \<^verbatim>\<open>execute_trade\<close>.  The gateway methods never raise, so the only exception that can
  leave the \<^verbatim>\<open>try\<close> block is the \<^verbatim>\<open>CancelledError\<close> of the settle sleep, which is no
  \<^verbatim>\<open>Exception\<close> and is not caught by the handler.  The parameters \<^verbatim>\<open>symbol\<close>,
  \<^verbatim>\<open>side\<close>, \<^verbatim>\<open>quantity\<close>, \<^verbatim>\<open>entry_price\<close>, \<^verbatim>\<open>stop_loss_points\<close> and \<^verbatim>\<open>target_points\<close>
  are written \<open>symb\<close>, \<open>sd\<close>, \<open>qty\<close>, \<open>entry\<close>, \<open>slp\<close> and \<open>tp\<close>, and the three
  local orders \<open>m_order\<close>, \<open>sl_order\<close> and \<open>tgt_order\<close>, because the source's names are
  the names of fields of \<^verbatim>\<open>Order\<close> and \<^verbatim>\<open>Trade\<close>.
\<close>

definition execute_trade ::
  "('g, 'p::{plus,minus}) Env \<Rightarrow> string \<Rightarrow> TradeSide \<Rightarrow> int \<Rightarrow> 'p \<Rightarrow> 'p \<Rightarrow> 'p \<Rightarrow>
   'p TradeExecutor \<Rightarrow> ('g, 'p) World \<Rightarrow>
   (CancelledError + TradeResult) \<times> 'p TradeExecutor \<times> ('g, 'p) World" where
  "execute_trade env symb sd qty entry slp tp ex w0 =
     (let stop_loss_price =
            (if sd = BUY then entry - slp else entry + slp);
          target_price =
            (if sd = BUY then entry + tp else entry - tp);
          (m_order, w1) =
            Order_init env None symb MARKET sd qty (Some entry) None w0;
          opposite_side = (if sd = BUY then SELL else BUY);
          (sl_order, w2) =
            Order_init env None symb STOP_LOSS opposite_side qty
              (Some stop_loss_price) (Some stop_loss_price) w1;
          (tgt_order, w3) =
            Order_init env None symb TARGET opposite_side qty
              (Some target_price) (Some target_price) w2;
          (market_order_id, w4) = client_place_order env m_order w3
      in if \<not> truthy market_order_id then
           (Inr (TradeResult_init False ''Failed to place market order'' None None), ex, w4)
         else
           let m_order = m_order\<lparr>order_id := str_of market_order_id\<rparr>;
               (cancelled, w5) = asyncio_sleep env 500 w4
           in if cancelled then (Inl CancelledError, ex, w5)
              else
                let (sl_order_id, w6) = client_place_order env sl_order w5
                in if \<not> truthy sl_order_id then
                     (Inr (TradeResult_init False ''Failed to place stop loss order'' None None),
                      ex, w6)
                   else
                     let sl_order = sl_order\<lparr>order_id := str_of sl_order_id\<rparr>;
                         (target_order_id, w7) = client_place_order env tgt_order w6
                     in if \<not> truthy target_order_id then
                          (Inr (TradeResult_init False ''Failed to place target order'' None None),
                           ex, w7)
                        else
                          let tgt_order = tgt_order\<lparr>order_id := str_of target_order_id\<rparr>;
                              (trade, w8) =
                                Trade_init env None symb sd qty entry slp tp
                                  m_order sl_order tgt_order w7;
                              ex' = start_order_monitoring trade ex
                          in (Inr (TradeResult_init True
                                 (''Trade placed successfully. Orders: ''
                                    @ str_of market_order_id
                                    @ '', SL: '' @ str_of sl_order_id
                                    @ '', Target: '' @ str_of target_order_id)
                                 (Some (Trade.trade_id trade))
                                 (Some [str_of market_order_id, str_of sl_order_id,
                                        str_of target_order_id])),
                              ex', w8))"


subsection \<open>The OCO monitor\<close>

text \<open>
  \<^verbatim>\<open>status.get('status') in ['COMPLETE', 'FILLED', 'EXECUTED']\<close> and
  \<^verbatim>\<open>status.get('status') in ['PENDING', 'TRIGGER_PENDING', 'OPEN']\<close>; a missing key
  gives \<^verbatim>\<open>None\<close>, which is in neither list.
\<close>

definition terminal_filled :: "status_dict \<Rightarrow> bool" where
  "terminal_filled d =
     (case d ''status'' of None \<Rightarrow> False
      | Some s \<Rightarrow> s \<in> set [''COMPLETE'', ''FILLED'', ''EXECUTED''])"

definition still_live :: "status_dict \<Rightarrow> bool" where
  "still_live d =
     (case d ''status'' of None \<Rightarrow> False
      | Some s \<Rightarrow> s \<in> set [''PENDING'', ''TRIGGER_PENDING'', ''OPEN''])"

text \<open>
  One pass through the body of \<^verbatim>\<open>while trade.active\<close>.  The pass ends with
  \<^verbatim>\<open>continue\<close> or by falling off the end of the body (both \<open>Continue\<close>, after a sleep of
  one second), with \<^verbatim>\<open>break\<close>, or with the \<^verbatim>\<open>CancelledError\<close> that a sleep raises in
  a cancelled task; the coroutine has no handler for it.
\<close>

datatype flow = Continue | Break | Cancelled

definition monitor_iteration ::
  "('g, 'p) Env \<Rightarrow> 'p Trade \<Rightarrow> ('g, 'p) World \<Rightarrow> flow \<times> 'p Trade \<times> ('g, 'p) World" where
  "monitor_iteration env trade w =
     (let sl_id = order_id (stop_loss_order trade);
          tgt_id = order_id (target_order trade);
          tid = Trade.trade_id trade;
          (sl_status, w1) = client_get_order_status env sl_id w;
          (target_status, w2) = client_get_order_status env tgt_id w1;
          poll_again =
            (let (cancelled, w3) = asyncio_sleep env 1000 w2
             in (if cancelled then Cancelled else Continue, trade, w3))
      in case sl_status of
           None \<Rightarrow> poll_again
         | Some sl \<Rightarrow>
            (case target_status of
               None \<Rightarrow> poll_again
             | Some tg \<Rightarrow>
                if terminal_filled sl then
                  let w3 = emit (Log INFO (StopLossFilled sl_id tid)) w2;
                      w4 = (if still_live tg then
                              let (cancel_result, w') = client_cancel_order env tgt_id w3
                              in if cancel_result
                                 then emit (Log INFO (TargetCancelledDueToSL tgt_id tid)) w'
                                 else emit (Log WARNING (FailedToCancelTarget tgt_id)) w'
                            else w3)
                  in (Break, trade\<lparr>active := False\<rparr>, w4)
                else if terminal_filled tg then
                  let w3 = emit (Log INFO (TargetFilled tgt_id tid)) w2;
                      w4 = (if still_live sl then
                              let (cancel_result, w') = client_cancel_order env sl_id w3
                              in if cancel_result
                                 then emit (Log INFO (StopLossCancelledDueToTarget sl_id tid)) w'
                                 else emit (Log WARNING (FailedToCancelStopLoss sl_id)) w'
                            else w3)
                  in (Break, trade\<lparr>active := False\<rparr>, w4)
                else poll_again))"

text \<open>
  The loop polls for ever while nothing fills, so it runs on fuel: \<open>monitor_loop n\<close> is
  the loop observed for at most \<open>n\<close> passes.  \<open>Returned\<close>: the loop was left (by
  \<^verbatim>\<open>break\<close> or because the guard was false); \<open>Raised\<close>: the task was cancelled at a sleep;
  \<open>StillPolling\<close>: after \<open>n\<close> passes the task is still in the loop.
\<close>

datatype ('g, 'p) monitor_run =
    Returned "'p Trade" "('g, 'p) World"
  | Raised CancelledError "'p Trade" "('g, 'p) World"
  | StillPolling "'p Trade" "('g, 'p) World"

fun monitor_loop ::
  "nat \<Rightarrow> ('g, 'p) Env \<Rightarrow> 'p Trade \<Rightarrow> ('g, 'p) World \<Rightarrow> ('g, 'p) monitor_run" where
  "monitor_loop 0 env trade w =
     (if active trade then StillPolling trade w else Returned trade w)"
| "monitor_loop (Suc n) env trade w =
     (if active trade then
        (case monitor_iteration env trade w of
           (Continue, trade', w') \<Rightarrow> monitor_loop n env trade' w'
         | (Break, trade', w') \<Rightarrow> Returned trade' w'
         | (Cancelled, trade', w') \<Rightarrow> Raised CancelledError trade' w')
      else Returned trade w)"

definition monitor_oco_orders ::
  "nat \<Rightarrow> ('g, 'p) Env \<Rightarrow> 'p Trade \<Rightarrow> ('g, 'p) World \<Rightarrow> ('g, 'p) monitor_run" where
  "monitor_oco_orders n env trade w =
     (case monitor_loop n env trade
             (emit (Log INFO (StartingMonitoring (Trade.trade_id trade))) w) of
        Returned trade' w' \<Rightarrow>
          Returned trade' (emit (Log INFO (MonitoringEnded (Trade.trade_id trade'))) w')
      | r \<Rightarrow> r)"

subsection \<open>Cleanup and cancellation\<close>

definition dict_contains :: "'k \<Rightarrow> ('k \<times> 'v) list \<Rightarrow> bool" where
  "dict_contains k d = (k \<in> set (map fst d))"

definition cleanup_trade_resources ::
  "string \<Rightarrow> 'p TradeExecutor \<Rightarrow> ('g, 'p) World \<Rightarrow> 'p TradeExecutor \<times> ('g, 'p) World" where
  "cleanup_trade_resources tid ex w =
     (let ex1 = (if dict_contains tid (active_orders ex)
                 then ex\<lparr>active_orders := AList.delete tid (active_orders ex)\<rparr> else ex);
          ex2 = (if dict_contains tid (trade_locks ex1)
                 then ex1\<lparr>trade_locks := AList.delete tid (trade_locks ex1)\<rparr> else ex1)
      in (ex2, emit (Log INFO (CleanedUp tid)) w))"

text \<open>
  When a task is done (it returned, raised, or was cancelled) the event loop calls each
  of its done callbacks once, in the order of registration.
\<close>

fun run_done_callbacks ::
  "callback list \<Rightarrow> 'p TradeExecutor \<Rightarrow> ('g, 'p) World \<Rightarrow> 'p TradeExecutor \<times> ('g, 'p) World" where
  "run_done_callbacks [] ex w = (ex, w)"
| "run_done_callbacks (CleanupTradeResources tid # cs) ex w =
     (let (ex', w') = cleanup_trade_resources tid ex w in run_done_callbacks cs ex' w')"

text \<open>
  The event loop runs a monitoring task: the coroutine is observed for at most \<open>n\<close>
  passes; \<open>None\<close> means that it is still pending then.  When it is done, the result
  says how it ended and in which state it left its trade.
\<close>

definition run_task ::
  "nat \<Rightarrow> ('g, 'p) Env \<Rightarrow> 'p Task \<Rightarrow> 'p TradeExecutor \<Rightarrow> ('g, 'p) World \<Rightarrow>
   (bool \<times> 'p Trade \<times> 'p TradeExecutor \<times> ('g, 'p) World) option" where
  "run_task n env task ex w =
     (case monitor_oco_orders n env (task_trade task) w of
        Returned trade' w' \<Rightarrow>
          (let (ex', w'') = run_done_callbacks (done_callbacks task) ex w'
           in Some (False, trade', ex', w''))
      | Raised e trade' w' \<Rightarrow>
          (let (ex', w'') = run_done_callbacks (done_callbacks task) ex w'
           in Some (True, trade', ex', w''))
      | StillPolling trade' w' \<Rightarrow> None)"

text \<open>
  \<^verbatim>\<open>cancel_trade_orders\<close>.  A task found in \<^verbatim>\<open>active_orders\<close> is pending (a done task has
  been removed by its callback), that is, suspended at a sleep of the monitor or not yet
  started.  \<^verbatim>\<open>task.cancel()\<close> followed by \<^verbatim>\<open>await task\<close> raises \<^verbatim>\<open>CancelledError\<close> there;
  the coroutine has no handler, so the task ends as cancelled, its done callbacks run,
  and the \<^verbatim>\<open>CancelledError\<close> that the \<^verbatim>\<open>await\<close> re-raises is swallowed.
\<close>

definition cancel_trade_orders ::
  "string \<Rightarrow> 'p TradeExecutor \<Rightarrow> ('g, 'p) World \<Rightarrow> bool \<times> 'p TradeExecutor \<times> ('g, 'p) World" where
  "cancel_trade_orders tid ex w =
     (case map_of (active_orders ex) tid of
        Some task \<Rightarrow>
          (let w1 = emit (CancelTask tid) w;
               w2 = emit (AwaitTask tid) w1;
               (ex', w3) = run_done_callbacks (done_callbacks task) ex w2
           in (True, ex', w3))
      | None \<Rightarrow> (True, ex, w))"

text \<open>\<^verbatim>\<open>get_trade_status\<close>: \<^verbatim>\<open>None\<close>, or the fixed report \<^verbatim>\<open>active = True, MONITORING\<close>.\<close>

definition get_trade_status ::
  "string \<Rightarrow> 'p TradeExecutor \<Rightarrow> (string \<times> bool \<times> string) option" where
  "get_trade_status tid ex =
     (if \<not> dict_contains tid (active_orders ex) then None
      else Some (tid, True, ''MONITORING''))"


section \<open>Trade manager (trade_manager.py)\<close>

text \<open>
  The manager owns the registry \<^verbatim>\<open>active_trades\<close> and the stream registry
  \<^verbatim>\<open>ltp_streams\<close>.  Its two \<^verbatim>\<open>asyncio.Lock\<close>s are taken with \<^verbatim>\<open>async with\<close>; taking and
  releasing them are events of the trace.  A stream task is the coroutine
  \<^verbatim>\<open>_run_ltp_stream(symbol, callback_func)\<close>, identified by its symbol.
\<close>

datatype StreamTask = StreamTask string

record 'p TradeManager =
  trade_executor :: "'p TradeExecutor"
  active_trades :: "(string \<times> 'p Trade) list"
  ltp_streams :: "(string \<times> StreamTask) list"

definition execute_new_trade ::
  "('g, 'p::{plus,minus}) Env \<Rightarrow> string \<Rightarrow> TradeSide \<Rightarrow> int \<Rightarrow> 'p \<Rightarrow> 'p \<Rightarrow> 'p \<Rightarrow>
   'p TradeManager \<Rightarrow> ('g, 'p) World \<Rightarrow>
   (CancelledError + TradeResult) \<times> 'p TradeManager \<times> ('g, 'p) World" where
  "execute_new_trade env symb sd qty entry slp tp m w =
     (let w1 = emit (Acquire TradeLock) w;
          (r, ex', w2) = execute_trade env symb sd qty entry slp tp (trade_executor m) w1;
          w3 = (case r of
                  Inr result \<Rightarrow>
                    if success result \<and> truthy (TradeResult.trade_id result)
                    then emit (Log INFO
                           (StartedTrade (str_of (TradeResult.trade_id result)) symb)) w2
                    else w2
                | Inl e \<Rightarrow> w2)
      in (r, m\<lparr>trade_executor := ex'\<rparr>, emit (Release TradeLock) w3))"

definition add_active_trade ::
  "'p Trade \<Rightarrow> 'p TradeManager \<Rightarrow> ('g, 'p) World \<Rightarrow> 'p TradeManager \<times> ('g, 'p) World" where
  "add_active_trade trade m w =
     (let w1 = emit (Acquire TradeLock) w;
          m' = m\<lparr>active_trades :=
                   AList.update (Trade.trade_id trade) trade (active_trades m)\<rparr>;
          w2 = emit (Log INFO (AddedTrade (Trade.trade_id trade))) w1
      in (m', emit (Release TradeLock) w2))"

definition remove_active_trade ::
  "string \<Rightarrow> 'p TradeManager \<Rightarrow> ('g, 'p) World \<Rightarrow> 'p TradeManager \<times> ('g, 'p) World" where
  "remove_active_trade tid m w =
     (let w1 = emit (Acquire TradeLock) w;
          (m', w2) =
            (if dict_contains tid (active_trades m)
             then (m\<lparr>active_trades := AList.delete tid (active_trades m)\<rparr>,
                   emit (Log INFO (RemovedTrade tid)) w1)
             else (m, w1))
      in (m', emit (Release TradeLock) w2))"

definition get_active_trades_count ::
  "'p TradeManager \<Rightarrow> ('g, 'p) World \<Rightarrow> nat \<times> ('g, 'p) World" where
  "get_active_trades_count m w =
     (let w1 = emit (Acquire TradeLock) w
      in (length (active_trades m), emit (Release TradeLock) w1))"

definition get_active_trades ::
  "'p TradeManager \<Rightarrow> ('g, 'p) World \<Rightarrow> 'p Trade list \<times> ('g, 'p) World" where
  "get_active_trades m w =
     (let w1 = emit (Acquire TradeLock) w
      in (map snd (active_trades m), emit (Release TradeLock) w1))"

definition cancel_trade ::
  "string \<Rightarrow> 'p TradeManager \<Rightarrow> ('g, 'p) World \<Rightarrow> bool \<times> 'p TradeManager \<times> ('g, 'p) World" where
  "cancel_trade tid m w =
     (let (result, ex', w1) = cancel_trade_orders tid (trade_executor m) w;
          m1 = m\<lparr>trade_executor := ex'\<rparr>
      in if result then
           (let (m2, w2) = remove_active_trade tid m1 w1 in (result, m2, w2))
         else (result, m1, w1))"

text \<open>The \<^verbatim>\<open>for\<close> loop of \<^verbatim>\<open>cancel_all_trades\<close> over the snapshot of the keys.\<close>

fun cancel_each ::
  "string list \<Rightarrow> 'p TradeManager \<Rightarrow> ('g, 'p) World \<Rightarrow> 'p TradeManager \<times> ('g, 'p) World" where
  "cancel_each [] m w = (m, w)"
| "cancel_each (tid # tids) m w =
     (let (result, m', w') = cancel_trade tid m w in cancel_each tids m' w')"

definition cancel_all_trades ::
  "'p TradeManager \<Rightarrow> ('g, 'p) World \<Rightarrow> 'p TradeManager \<times> ('g, 'p) World" where
  "cancel_all_trades m w =
     (let w1 = emit (Acquire TradeLock) w;
          trade_ids = map fst (active_trades m);
          w2 = emit (Release TradeLock) w1
      in cancel_each trade_ids m w2)"


definition stop_ltp_stream_for_symbol ::
  "string \<Rightarrow> 'p TradeManager \<Rightarrow> ('g, 'p) World \<Rightarrow> 'p TradeManager \<times> ('g, 'p) World" where
  "stop_ltp_stream_for_symbol symb m w =
     (let w1 = emit (Acquire StreamLock) w;
          (m', w2) =
            (if dict_contains symb (ltp_streams m)
             then (m\<lparr>ltp_streams := AList.delete symb (ltp_streams m)\<rparr>,
                   emit (AwaitTask symb) (emit (CancelTask symb) w1))
             else (m, w1))
      in (m', emit (Release StreamLock) w2))"

fun stop_each ::
  "string list \<Rightarrow> 'p TradeManager \<Rightarrow> ('g, 'p) World \<Rightarrow> 'p TradeManager \<times> ('g, 'p) World" where
  "stop_each [] m w = (m, w)"
| "stop_each (symb # symbs) m w =
     (let (m', w') = stop_ltp_stream_for_symbol symb m w in stop_each symbs m' w')"

definition stop_all_ltp_streams ::
  "'p TradeManager \<Rightarrow> ('g, 'p) World \<Rightarrow> 'p TradeManager \<times> ('g, 'p) World" where
  "stop_all_ltp_streams m w =
     (let w1 = emit (Acquire StreamLock) w;
          symbols = map fst (ltp_streams m);
          w2 = emit (Release StreamLock) w1
      in stop_each symbols m w2)"

text \<open>
  \<^verbatim>\<open>get_overall_status\<close>: the count and, for each registered trade, its id, symbol,
  side, quantity, entry price and active flag.
\<close>

definition get_overall_status ::
  "'p TradeManager \<Rightarrow> ('g, 'p) World \<Rightarrow>
   (nat \<times> (string \<times> string \<times> TradeSide \<times> int \<times> 'p \<times> bool) list) \<times> ('g, 'p) World" where
  "get_overall_status m w =
     (let (active_count, w1) = get_active_trades_count m w;
          (trades, w2) = get_active_trades m w1
      in ((active_count,
           map (\<lambda>trade. (Trade.trade_id trade, Trade.symbol trade, Trade.side trade,
                          Trade.quantity trade, entry_price trade, active trade)) trades),
          w2))"

definition cleanup ::
  "'p TradeManager \<Rightarrow> ('g, 'p) World \<Rightarrow> 'p TradeManager \<times> ('g, 'p) World" where
  "cleanup m w =
     (let w1 = emit (Log INFO CleaningUpManager) w;
          (m1, w2) = cancel_all_trades m w1;
          (m2, w3) = stop_all_ltp_streams m1 w2
      in (m2, emit (Log INFO ManagerCleanupCompleted) w3))"

section \<open>Lock discipline on traces\<close>

text \<open>
  The suspension points of the engine are the gateway calls, the sleeps and the awaits
  of another task.  \<open>lock_step\<close> replays a trace and keeps the list of locks held; it
  fails (\<open>None\<close>) as soon as a suspension point is reached while a lock is held.
\<close>

fun suspension :: "'p event \<Rightarrow> bool" where
  "suspension (PlaceOrder _ _) = True"
| "suspension (GetOrderStatus _ _) = True"
| "suspension (CancelOrder _ _) = True"
| "suspension (Sleep _) = True"
| "suspension (AwaitTask _) = True"
| "suspension _ = False"

fun lock_step :: "lock_name list option \<Rightarrow> 'p event \<Rightarrow> lock_name list option" where
  "lock_step None e = None"
| "lock_step (Some held) (Acquire l) = Some (l # held)"
| "lock_step (Some held) (Release l) = Some (removeAll l held)"
| "lock_step (Some held) e = (if suspension e \<and> held \<noteq> [] then None else Some held)"

definition locks_released :: "'p event list \<Rightarrow> bool" where
  "locks_released tr = (foldl lock_step (Some []) tr = Some [])"

definition lock_violation :: "'p event list \<Rightarrow> bool" where
  "lock_violation tr = (foldl lock_step (Some []) tr = None)"

section \<open>Notions used in the statements\<close>

text \<open>The orders handed to \<^verbatim>\<open>place_order\<close> in a trace, and the shape of a leg.\<close>

definition placed_orders :: "'p event list \<Rightarrow> 'p Order list" where
  "placed_orders evs =
     concat (map (\<lambda>e. case e of PlaceOrder ord r \<Rightarrow> [ord] | _ \<Rightarrow> []) evs)"

definition leg_of :: "'p Order \<Rightarrow> OrderType \<times> TradeSide \<times> 'p option" where
  "leg_of ord = (order_type ord, Order.side ord, trigger_price ord)"


text \<open>
  \<open>polls_absent k\<close>: in each of the next \<open>k\<close> passes of the monitor at least one of
  the two status polls is answered with \<^verbatim>\<open>None\<close>, and the sleep that follows is not
  interrupted by a cancellation of the task.
\<close>

fun polls_absent :: "nat \<Rightarrow> ('g, 'p) Env \<Rightarrow> 'p Trade \<Rightarrow> ('g, 'p) World \<Rightarrow> bool" where
  "polls_absent 0 env trade w = True"
| "polls_absent (Suc k) env trade w =
     (let (sl_status, w1) = client_get_order_status env (order_id (stop_loss_order trade)) w;
          (target_status, w2) =
             client_get_order_status env (order_id (target_order trade)) w1;
          (cancelled, w3) = asyncio_sleep env 1000 w2
      in (sl_status = None \<or> target_status = None) \<and> \<not> cancelled
         \<and> polls_absent k env trade w3)"

fun poll_or_sleep :: "'p event \<Rightarrow> bool" where
  "poll_or_sleep (GetOrderStatus _ _) = True"
| "poll_or_sleep (Sleep ms) = (ms = 1000)"
| "poll_or_sleep _ = False"

text \<open>The trade ids that a list of done callbacks cleans up.\<close>

fun callback_ids :: "callback list \<Rightarrow> string list" where
  "callback_ids [] = []"
| "callback_ids (CleanupTradeResources tid # cs) = tid # callback_ids cs"

text \<open>
  Sequential submit/resolve cycles: each trade is submitted with \<^verbatim>\<open>execute_trade\<close> and,
  when the submission succeeded, its monitoring task is run until it is done, before
  the next trade is submitted.  \<open>None\<close>: some monitoring task was still pending after
  \<open>n\<close> passes.
\<close>

fun submit_resolve_cycles ::
  "nat \<Rightarrow> ('g, 'p::{plus,minus}) Env \<Rightarrow> (string \<times> TradeSide \<times> int \<times> 'p \<times> 'p \<times> 'p) list \<Rightarrow>
   'p TradeExecutor \<Rightarrow> ('g, 'p) World \<Rightarrow> ('p TradeExecutor \<times> ('g, 'p) World) option" where
  "submit_resolve_cycles n env [] ex w = Some (ex, w)"
| "submit_resolve_cycles n env ((symb, sd, qty, entry, slp, tp) # rest) ex w =
     (case execute_trade env symb sd qty entry slp tp ex w of
        (Inr result, ex1, w1) \<Rightarrow>
          (if success result then
             (case map_of (active_orders ex1) (str_of (TradeResult.trade_id result)) of
                Some task \<Rightarrow>
                  (case run_task n env task ex1 w1 of
                     Some (c, trade', ex2, w2) \<Rightarrow> submit_resolve_cycles n env rest ex2 w2
                   | None \<Rightarrow> None)
              | None \<Rightarrow> None)
           else submit_resolve_cycles n env rest ex1 w1)
      | (Inl e, ex1, w1) \<Rightarrow> submit_resolve_cycles n env rest ex1 w1)"

section \<open>A test environment\<close>

text \<open>
  A gateway that accepts every order, answers no status, confirms every cancel, and
  an event loop that never cancels a sleeping task; variations of it for the
  scenarios of the specification.
\<close>

definition demo_env :: "(nat, int) Env" where
  "demo_env =
     \<lparr>gw_place_order = (\<lambda>ord g.
         (Some (case order_type ord of
                  MARKET \<Rightarrow> ''E-1'' | STOP_LOSS \<Rightarrow> ''S-1''
                | TARGET \<Rightarrow> ''T-1'' | LIMIT \<Rightarrow> ''L-1''), g)),
      gw_get_order_status = (\<lambda>oid g. (None, Suc g)),
      gw_cancel_order = (\<lambda>oid g. (True, g)),
      uuid4 = (\<lambda>g. (''uuid'', g)),
      sleep_cancelled = (\<lambda>g. (False, g))\<rparr>"

definition rejecting_env :: "(nat, int) Env" where
  "rejecting_env = demo_env\<lparr>gw_place_order := (\<lambda>ord g. (None, g))\<rparr>"

definition filled_status :: status_dict where
  "filled_status = [''status'' \<mapsto> ''COMPLETE'']"

definition both_filled_env :: "(nat, int) Env" where
  "both_filled_env = demo_env\<lparr>gw_get_order_status := (\<lambda>oid g. (Some filled_status, Suc g))\<rparr>"

definition cancelling_env :: "(nat, int) Env" where
  "cancelling_env = demo_env\<lparr>sleep_cancelled := (\<lambda>g. (True, g))\<rparr>"

definition demo_order :: "string \<Rightarrow> OrderType \<Rightarrow> TradeSide \<Rightarrow> int option \<Rightarrow> int option \<Rightarrow> int Order" where
  "demo_order oid ty sd pr trig =
     \<lparr>order_id = oid, Order.symbol = ''XYZ'', order_type = ty, Order.side = sd,
      Order.quantity = 10, price = pr, trigger_price = trig, status = PENDING,
      filled_quantity = 0, average_price = None\<rparr>"

definition demo_trade :: "int Trade" where
  "demo_trade =
     \<lparr>Trade.trade_id = ''uuid'', Trade.symbol = ''XYZ'', Trade.side = BUY,
      Trade.quantity = 10, entry_price = 100, stop_loss_points = 5, target_points = 10,
      market_order = demo_order ''E-1'' MARKET BUY (Some 100) None,
      stop_loss_order = demo_order ''S-1'' STOP_LOSS SELL (Some 95) (Some 95),
      target_order = demo_order ''T-1'' TARGET SELL (Some 110) (Some 110),
      active = True\<rparr>"

definition w0 :: "(nat, int) World" where
  "w0 = \<lparr>env_state = 0, trace = []\<rparr>"

definition ex0 :: "int TradeExecutor" where
  "ex0 = \<lparr>active_orders = [], trade_locks = []\<rparr>"

definition m0 :: "int TradeManager" where
  "m0 = \<lparr>trade_executor = ex0, active_trades = [], ltp_streams = []\<rparr>"

section \<open>Properties\<close>

subsection \<open>Basic facts about the environment operations\<close>

lemma trace_emit [simp]: "trace (emit e w) = trace w @ [e]"
  by (simp add: emit_def)

lemma env_state_emit [simp]: "env_state (emit e w) = env_state w"
  by (simp add: emit_def)

lemma trace_new_uuid [simp]: "trace (snd (new_uuid env w)) = trace w"
  by (simp add: new_uuid_def case_prod_beta)

lemma trace_client_place_order [simp]:
  "trace (snd (client_place_order env ord w)) =
     trace w @ [PlaceOrder ord (fst (client_place_order env ord w))]"
  by (simp add: client_place_order_def case_prod_beta)

lemma trace_client_get_order_status [simp]:
  "trace (snd (client_get_order_status env oid w)) =
     trace w @ [GetOrderStatus oid (fst (client_get_order_status env oid w))]"
  by (simp add: client_get_order_status_def case_prod_beta)

lemma trace_client_cancel_order [simp]:
  "trace (snd (client_cancel_order env oid w)) =
     trace w @ [CancelOrder oid (fst (client_cancel_order env oid w))]"
  by (simp add: client_cancel_order_def case_prod_beta)

lemma trace_asyncio_sleep [simp]:
  "trace (snd (asyncio_sleep env ms w)) = trace w @ [Sleep ms]"
  by (simp add: asyncio_sleep_def case_prod_beta)

lemma trace_Order_init [simp]:
  "trace (snd (Order_init env oid symb ty sd qty pr trig w)) = trace w"
  by (simp add: Order_init_def case_prod_beta split: option.splits)

lemma trace_Trade_init [simp]:
  "trace (snd (Trade_init env tid symb sd qty entry slp tp mo slo tgo w)) = trace w"
  by (simp add: Trade_init_def case_prod_beta split: option.splits)

lemma leg_of_Order_init [simp]:
  "leg_of (fst (Order_init env oid symb ty sd qty pr trig w)) = (ty, sd, trig)"
  by (simp add: Order_init_def leg_of_def case_prod_beta split: option.splits)

lemma leg_of_order_id_update [simp]: "leg_of (ord\<lparr>order_id := i\<rparr>) = leg_of ord"
  by (simp add: leg_of_def)

lemma Trade_init_fields [simp]:
  "market_order (fst (Trade_init env tid symb sd qty entry slp tp mo slo tgo w)) = mo"
  "stop_loss_order (fst (Trade_init env tid symb sd qty entry slp tp mo slo tgo w)) = slo"
  "target_order (fst (Trade_init env tid symb sd qty entry slp tp mo slo tgo w)) = tgo"
  "Trade.side (fst (Trade_init env tid symb sd qty entry slp tp mo slo tgo w)) = sd"
  "active (fst (Trade_init env tid symb sd qty entry slp tp mo slo tgo w))"
  by (simp_all add: Trade_init_def case_prod_beta split: option.splits)

lemma placed_orders_simps [simp]:
  "placed_orders [] = []"
  "placed_orders (xs @ ys) = placed_orders xs @ placed_orders ys"
  "placed_orders (PlaceOrder ord r # xs) = ord # placed_orders xs"
  "placed_orders (Sleep n # xs) = placed_orders xs"
  by (simp_all add: placed_orders_def)

lemma map_of_start_order_monitoring [simp]:
  "map_of (active_orders (start_order_monitoring trade ex)) (Trade.trade_id trade) =
     Some \<lparr>task_trade = trade, done_callbacks = [CleanupTradeResources (Trade.trade_id trade)]\<rparr>"
  by (simp add: start_order_monitoring_def Let_def update_conv')

subsection \<open>Bracket prices and sides\<close>






subsection \<open>Fail-fast on a rejected entry leg\<close>

lemma execute_trade_entry_leg:
  fixes entry :: "'p::{plus,minus}"
  shows "\<exists>ord answer more.
     trace (snd (snd (execute_trade env symb sd qty entry slp tp ex w))) =
       trace w @ PlaceOrder ord answer # more \<and>
     order_type ord = MARKET \<and>
     (\<not> truthy answer \<longrightarrow>
        more = [] \<and>
        fst (execute_trade env symb sd qty entry slp tp ex w) =
          Inr (TradeResult_init False ''Failed to place market order'' None None) \<and>
        fst (snd (execute_trade env symb sd qty entry slp tp ex w)) = ex)"
proof -
  let ?o1 = "Order_init env None symb MARKET sd qty (Some entry) None w"
  let ?opp = "if sd = BUY then SELL else BUY"
  let ?sl = "if sd = BUY then entry - slp else entry + slp"
  let ?tg = "if sd = BUY then entry + tp else entry - tp"
  let ?o2 = "Order_init env None symb STOP_LOSS ?opp qty (Some ?sl) (Some ?sl) (snd ?o1)"
  let ?o3 = "Order_init env None symb TARGET ?opp qty (Some ?tg) (Some ?tg) (snd ?o2)"
  let ?p = "client_place_order env (fst ?o1) (snd ?o3)"
  have ty: "order_type (fst ?o1) = MARKET"
    by (simp add: Order_init_def case_prod_beta)
  have "\<exists>more.
     trace (snd (snd (execute_trade env symb sd qty entry slp tp ex w))) =
       trace w @ PlaceOrder (fst ?o1) (fst ?p) # more \<and>
     (\<not> truthy (fst ?p) \<longrightarrow>
        more = [] \<and>
        fst (execute_trade env symb sd qty entry slp tp ex w) =
          Inr (TradeResult_init False ''Failed to place market order'' None None) \<and>
        fst (snd (execute_trade env symb sd qty entry slp tp ex w)) = ex)"
    unfolding execute_trade_def Let_def case_prod_beta by simp
  with ty show ?thesis by blast
qed


text \<open>
  Claim C2.  When the answer of the gateway to the first \<^verbatim>\<open>place_order\<close> of a call
  (the entry leg, a market order) is no order id, the call returns the failed
  \<^verbatim>\<open>TradeResult\<close> of the entry leg, that placement is the only thing the call did to
  the outside (no further \<^verbatim>\<open>place_order\<close>, no sleep), and the executor with its two
  tracking maps is unchanged, so no monitoring task was started.
\<close>

theorem execute_trade_entry_rejected:
  fixes entry :: "'p::{plus,minus}"
  assumes "execute_trade env symb sd qty entry slp tp ex w = (r, ex', w')"
    and "trace w' = trace w @ PlaceOrder ord answer # rest"
    and "\<not> truthy answer"
  shows "r = Inr (TradeResult_init False ''Failed to place market order'' None None) \<and>
         \<not> success (TradeResult_init False ''Failed to place market order'' None None) \<and>
         rest = [] \<and> ex' = ex \<and> order_type ord = MARKET"
proof -
  obtain ord' answer' more where
    t: "trace w' = trace w @ PlaceOrder ord' answer' # more"
    and ty: "order_type ord' = MARKET"
    and f: "\<not> truthy answer' \<longrightarrow>
        more = [] \<and> r = Inr (TradeResult_init False ''Failed to place market order'' None None)
        \<and> ex' = ex"
    using execute_trade_entry_leg [of env symb sd qty entry slp tp ex w] assms(1) by auto
  from t assms(2) have "ord' = ord" "answer' = answer" "more = rest"
    by simp_all
  with ty f assms(3) show ?thesis
    by (simp add: TradeResult_init_def)
qed

theorem execute_trade_entry_rejected_witness:
  "\<exists>ord. execute_trade rejecting_env ''XYZ'' BUY 10 100 5 10 ex0 w0 =
     (Inr (TradeResult_init False ''Failed to place market order'' None None), ex0,
      w0\<lparr>trace := [PlaceOrder ord None]\<rparr>) \<and> order_type ord = MARKET"
proof -
  let ?ord = "\<lparr>order_id = ''uuid'', Order.symbol = ''XYZ'', order_type = MARKET,
      Order.side = BUY, Order.quantity = 10, price = Some (100::int), trigger_price = None,
      status = PENDING, filled_quantity = 0, average_price = None\<rparr>"
  have e: "execute_trade rejecting_env ''XYZ'' BUY 10 100 5 10 ex0 w0 =
     (Inr (TradeResult_init False ''Failed to place market order'' None None), ex0,
      w0\<lparr>trace := [PlaceOrder ?ord None]\<rparr>)"
    by (simp add: execute_trade_def Let_def Order_init_def new_uuid_def
        client_place_order_def rejecting_env_def demo_env_def w0_def emit_def)
  have t: "trace (w0\<lparr>trace := [PlaceOrder ?ord None]\<rparr>) = trace w0 @ PlaceOrder ?ord None # []"
    by (simp add: w0_def)
  have n: "\<not> truthy None" by simp
  from execute_trade_entry_rejected [OF e t n] e show ?thesis
    by auto
qed


section \<open>Properties of the OCO monitor\<close>

subsection \<open>One pass of the monitor\<close>

lemma terminal_filled_not_still_live: "terminal_filled d \<Longrightarrow> \<not> still_live d"
  by (auto simp: terminal_filled_def still_live_def split: option.splits)

lemma monitor_iteration_absent:
  assumes "client_get_order_status env (order_id (stop_loss_order trade)) w = (sl_status, w1)"
    and "client_get_order_status env (order_id (target_order trade)) w1 = (target_status, w2)"
    and "sl_status = None \<or> target_status = None"
  shows "monitor_iteration env trade w =
           (if fst (asyncio_sleep env 1000 w2) then Cancelled else Continue, trade,
            snd (asyncio_sleep env 1000 w2))"
  using assms
  by (auto simp: monitor_iteration_def Let_def case_prod_beta split: option.splits)

lemma monitor_iteration_both_filled:
  assumes "client_get_order_status env (order_id (stop_loss_order trade)) w = (Some sl, w1)"
    and "client_get_order_status env (order_id (target_order trade)) w1 = (Some tg, w2)"
    and "terminal_filled sl" and "terminal_filled tg"
  shows "monitor_iteration env trade w =
           (Break, trade\<lparr>active := False\<rparr>,
            emit (Log INFO (StopLossFilled (order_id (stop_loss_order trade))
                    (Trade.trade_id trade))) w2)"
  using assms terminal_filled_not_still_live [of tg]
  by (simp add: monitor_iteration_def Let_def)

lemma monitor_iteration_trade:
  "fst (snd (monitor_iteration env trade w)) =
     (if fst (monitor_iteration env trade w) = Break then trade\<lparr>active := False\<rparr> else trade)"
  by (simp add: monitor_iteration_def Let_def case_prod_beta split: option.splits)

text \<open>
  Claim C3 (amended).  In a pass in which both exit legs report a Terminal-Filled
  status, the stop-loss branch is the one taken: the pass logs the stop-loss fill (and
  not the target fill), marks the trade inactive and leaves the loop.  No
  \<^verbatim>\<open>cancel_order\<close> call is made in that pass: the target leg is cancelled only when it
  is Still-Live, which a Terminal-Filled leg is not.
\<close>

theorem monitor_iteration_stop_loss_wins:
  assumes "client_get_order_status env (order_id (stop_loss_order trade)) w = (Some sl, w1)"
    and "client_get_order_status env (order_id (target_order trade)) w1 = (Some tg, w2)"
    and "terminal_filled sl" and "terminal_filled tg"
  shows "\<exists>w'. monitor_iteration env trade w = (Break, trade\<lparr>active := False\<rparr>, w') \<and>
           trace w' = trace w @
             [GetOrderStatus (order_id (stop_loss_order trade)) (Some sl),
              GetOrderStatus (order_id (target_order trade)) (Some tg),
              Log INFO (StopLossFilled (order_id (stop_loss_order trade))
                          (Trade.trade_id trade))]"
proof -
  have t1: "trace w1 = trace w @ [GetOrderStatus (order_id (stop_loss_order trade)) (Some sl)]"
    using trace_client_get_order_status [of env "order_id (stop_loss_order trade)" w] assms(1)
    by simp
  have t2: "trace w2 = trace w1 @ [GetOrderStatus (order_id (target_order trade)) (Some tg)]"
    using trace_client_get_order_status [of env "order_id (target_order trade)" w1] assms(2)
    by simp
  show ?thesis
    using monitor_iteration_both_filled [OF assms] t1 t2 by simp
qed

lemma both_filled_polls:
  "client_get_order_status both_filled_env ''S-1'' w0 =
     (Some filled_status, \<lparr>env_state = 1, trace = [GetOrderStatus ''S-1'' (Some filled_status)]\<rparr>)"
  "client_get_order_status both_filled_env ''T-1''
       \<lparr>env_state = 1, trace = [GetOrderStatus ''S-1'' (Some filled_status)]\<rparr> =
     (Some filled_status,
      \<lparr>env_state = 2, trace = [GetOrderStatus ''S-1'' (Some filled_status),
                                GetOrderStatus ''T-1'' (Some filled_status)]\<rparr>)"
  by (simp_all add: client_get_order_status_def both_filled_env_def demo_env_def w0_def emit_def)

lemma terminal_filled_filled_status: "terminal_filled filled_status"
  by (simp add: terminal_filled_def filled_status_def)

lemma demo_trade_ids:
  "order_id (stop_loss_order demo_trade) = ''S-1''"
  "order_id (target_order demo_trade) = ''T-1''"
  "Trade.trade_id demo_trade = ''uuid''"
  "active demo_trade"
  by (simp_all add: demo_trade_def demo_order_def)

theorem monitor_iteration_stop_loss_wins_witness:
  "\<exists>w'. monitor_iteration both_filled_env demo_trade w0 =
            (Break, demo_trade\<lparr>active := False\<rparr>, w') \<and>
         trace w' = [GetOrderStatus ''S-1'' (Some filled_status),
                     GetOrderStatus ''T-1'' (Some filled_status),
                     Log INFO (StopLossFilled ''S-1'' ''uuid'')]"
  using monitor_iteration_stop_loss_wins [of both_filled_env demo_trade w0 filled_status _
      filled_status, unfolded demo_trade_ids, OF both_filled_polls terminal_filled_filled_status
      terminal_filled_filled_status]
  by (simp add: w0_def)

text \<open>
  The claim as stated fails: both legs report \<^verbatim>\<open>COMPLETE\<close>, the stop-loss branch is
  taken, and the gateway is never asked to cancel the target leg \<^verbatim>\<open>T-1\<close>.
\<close>

theorem both_filled_no_cancel_counterexample:
  "terminal_filled filled_status \<and>
   monitor_iteration both_filled_env demo_trade w0 =
     (Break, demo_trade\<lparr>active := False\<rparr>,
      \<lparr>env_state = 2,
       trace = [GetOrderStatus ''S-1'' (Some filled_status),
                GetOrderStatus ''T-1'' (Some filled_status),
                Log INFO (StopLossFilled ''S-1'' ''uuid'')]\<rparr>) \<and>
   CancelOrder ''T-1'' True \<notin> set (trace (snd (snd (monitor_iteration both_filled_env demo_trade w0)))) \<and>
   CancelOrder ''T-1'' False \<notin> set (trace (snd (snd (monitor_iteration both_filled_env demo_trade w0))))"
proof -
  have e: "monitor_iteration both_filled_env demo_trade w0 =
     (Break, demo_trade\<lparr>active := False\<rparr>,
      \<lparr>env_state = 2,
       trace = [GetOrderStatus ''S-1'' (Some filled_status),
                GetOrderStatus ''T-1'' (Some filled_status),
                Log INFO (StopLossFilled ''S-1'' ''uuid'')]\<rparr>)"
    using monitor_iteration_both_filled [of both_filled_env demo_trade w0 filled_status _
      filled_status, unfolded demo_trade_ids, OF both_filled_polls terminal_filled_filled_status
      terminal_filled_filled_status]
    by (simp add: emit_def)
  show ?thesis
    using terminal_filled_filled_status by (simp add: e)
qed

subsection \<open>The whole loop\<close>

lemma monitor_loop_trade:
  "case monitor_loop n env trade w of
     Returned t' w' \<Rightarrow> t' = trade\<lparr>active := False\<rparr>
   | Raised e t' w' \<Rightarrow> t' = trade \<and> active trade
   | StillPolling t' w' \<Rightarrow> t' = trade \<and> active trade"
proof (induction n arbitrary: w)
  case 0
  show ?case by simp
next
  case (Suc n)
  show ?case
  proof (cases "active trade")
    case False
    then show ?thesis by simp
  next
    case True
    obtain f t' w' where it: "monitor_iteration env trade w = (f, t', w')"
      by (cases "monitor_iteration env trade w") auto
    have t': "t' = (if f = Break then trade\<lparr>active := False\<rparr> else trade)"
      using monitor_iteration_trade [of env trade w] it by simp
    show ?thesis
    proof (cases f)
      case Continue
      with True it t' Suc.IH [of w'] show ?thesis by simp
    next
      case Break
      with True it t' show ?thesis by simp
    next
      case Cancelled
      with True it t' show ?thesis by simp
    qed
  qed
qed

text \<open>
  Claim C4 (amended).  The monitor is the only writer of the flag and writes only
  \<^verbatim>\<open>False\<close>.  Observed after any number of passes: while it is still polling the trade
  is unchanged; when it has returned (stop-loss or target leg filled) the trade is the
  initial one with \<^verbatim>\<open>active = False\<close>; when the task was cancelled from outside the
  trade is unchanged, so its flag is still \<^verbatim>\<open>True\<close>.  On no path does the flag go back
  to \<^verbatim>\<open>True\<close>.
\<close>

theorem monitor_active_flag:
  "case monitor_oco_orders n env trade w of
     Returned t' w' \<Rightarrow> t' = trade\<lparr>active := False\<rparr>
   | Raised e t' w' \<Rightarrow> t' = trade \<and> active trade
   | StillPolling t' w' \<Rightarrow> t' = trade \<and> active trade"
  using monitor_loop_trade
    [where n = n and env = env and trade = trade
       and w = "emit (Log INFO (StartingMonitoring (Trade.trade_id trade))) w"]
  by (simp add: monitor_oco_orders_def split: monitor_run.splits)

text \<open>
  The claim as stated fails on the cancellation path: the task is cancelled during the
  sleep of its first pass and ends with the flag still \<^verbatim>\<open>True\<close>.
\<close>

theorem cancelled_monitor_stays_active_counterexample:
  "monitor_oco_orders 1 cancelling_env demo_trade w0 =
     Raised CancelledError demo_trade
       \<lparr>env_state = 2,
        trace = [Log INFO (StartingMonitoring ''uuid''), GetOrderStatus ''S-1'' None,
                 GetOrderStatus ''T-1'' None, Sleep 1000]\<rparr>
   \<and> active demo_trade"
  by (simp add: monitor_oco_orders_def monitor_iteration_def Let_def
        client_get_order_status_def asyncio_sleep_def cancelling_env_def demo_env_def
        demo_trade_ids w0_def emit_def)

text \<open>
  Claim C5.  Let the next \<open>k\<close> passes of the loop each get \<^verbatim>\<open>None\<close> for the stop-loss
  or the target leg (and let no cancellation of the task arrive meanwhile).  Then after
  these \<open>k\<close> passes the monitor is still polling, with the trade and its flag unchanged;
  all it did was to poll and to sleep one second, three events a pass, so no leg was
  classified or cancelled; and it goes on exactly as a monitor started in that state.
\<close>

theorem monitor_absent_status_retries:
  assumes "polls_absent k env trade w" and "active trade"
  shows "\<exists>w' evs. monitor_loop k env trade w = StillPolling trade w' \<and>
           trace w' = trace w @ evs \<and> list_all poll_or_sleep evs \<and> length evs = 3 * k \<and>
           (\<forall>n. monitor_loop (k + n) env trade w = monitor_loop n env trade w')"
  using assms
proof (induction k arbitrary: w)
  case 0
  then show ?case by simp
next
  case (Suc k)
  obtain sl_status w1 where p1:
    "client_get_order_status env (order_id (stop_loss_order trade)) w = (sl_status, w1)"
    by (cases "client_get_order_status env (order_id (stop_loss_order trade)) w") auto
  obtain target_status w2 where p2:
    "client_get_order_status env (order_id (target_order trade)) w1 = (target_status, w2)"
    by (cases "client_get_order_status env (order_id (target_order trade)) w1") auto
  obtain c w3 where s: "asyncio_sleep env 1000 w2 = (c, w3)"
    by (cases "asyncio_sleep env 1000 w2") auto
  from Suc.prems(1) p1 p2 s have
    absent: "sl_status = None \<or> target_status = None" and "\<not> c" and rest: "polls_absent k env trade w3"
    by simp_all
  have it: "monitor_iteration env trade w = (Continue, trade, w3)"
    using monitor_iteration_absent [OF p1 p2 absent] s \<open>\<not> c\<close> by simp
  have t3: "trace w3 = trace w @ [GetOrderStatus (order_id (stop_loss_order trade)) sl_status,
      GetOrderStatus (order_id (target_order trade)) target_status, Sleep 1000]"
    using trace_client_get_order_status [of env "order_id (stop_loss_order trade)" w]
      trace_client_get_order_status [of env "order_id (target_order trade)" w1]
      trace_asyncio_sleep [of env 1000 w2] p1 p2 s
    by simp
  from Suc.IH [OF rest Suc.prems(2)] obtain w' evs where
    ih: "monitor_loop k env trade w3 = StillPolling trade w'"
      "trace w' = trace w3 @ evs" "list_all poll_or_sleep evs" "length evs = 3 * k"
      "\<forall>n. monitor_loop (k + n) env trade w3 = monitor_loop n env trade w'"
    by blast
  let ?evs = "[GetOrderStatus (order_id (stop_loss_order trade)) sl_status,
      GetOrderStatus (order_id (target_order trade)) target_status, Sleep 1000] @ evs"
  have "monitor_loop (Suc k) env trade w = StillPolling trade w'"
    using it ih(1) Suc.prems(2) by simp
  moreover have "trace w' = trace w @ ?evs"
    using ih(2) t3 by simp
  moreover have "list_all poll_or_sleep ?evs"
    using ih(3) by simp
  moreover have "length ?evs = 3 * Suc k"
    using ih(4) by simp
  moreover have "\<forall>n. monitor_loop (Suc k + n) env trade w = monitor_loop n env trade w'"
    using it ih(5) Suc.prems(2) by simp
  ultimately show ?case by blast
qed

text \<open>Scenario 4: the status poll is answered with \<^verbatim>\<open>None\<close> in two consecutive passes.\<close>

lemma demo_polls_absent: "polls_absent (Suc (Suc 0)) demo_env demo_trade w0"
  by (simp add: client_get_order_status_def asyncio_sleep_def demo_env_def w0_def emit_def)

theorem monitor_absent_status_retries_witness:
  "\<exists>w'. monitor_loop (Suc (Suc 0)) demo_env demo_trade w0 = StillPolling demo_trade w' \<and>
         length (trace w') = 6 \<and> active demo_trade"
  using monitor_absent_status_retries [OF demo_polls_absent demo_trade_ids(4)]
  by (auto simp: w0_def demo_trade_ids)

section \<open>Cleanup, cancellation and the registry\<close>

lemma dict_contains_iff: "dict_contains k d \<longleftrightarrow> k \<in> fst ` set d"
  by (simp add: dict_contains_def)

lemma dict_contains_map_of: "dict_contains k d \<longleftrightarrow> map_of d k \<noteq> None"
  by (simp add: dict_contains_def map_of_eq_None_iff)

lemma dict_contains_delete [simp]: "\<not> dict_contains k (AList.delete k d)"
  by (simp add: dict_contains_iff delete_notin_dom)

lemma cleanup_trade_resources_eq:
  "cleanup_trade_resources tid ex w =
     (ex\<lparr>active_orders := AList.delete tid (active_orders ex),
         trade_locks := AList.delete tid (trade_locks ex)\<rparr>,
      emit (Log INFO (CleanedUp tid)) w)"
  by (simp add: cleanup_trade_resources_def Let_def dict_contains_iff)

lemma run_done_callbacks_eq:
  "run_done_callbacks cs ex w =
     (ex\<lparr>active_orders := filter (\<lambda>p. fst p \<notin> set (callback_ids cs)) (active_orders ex),
         trade_locks := filter (\<lambda>p. fst p \<notin> set (callback_ids cs)) (trade_locks ex)\<rparr>,
      w\<lparr>trace := trace w @ map (\<lambda>t. Log INFO (CleanedUp t)) (callback_ids cs)\<rparr>)"
proof (induction cs arbitrary: ex w)
  case Nil
  show ?case by simp
next
  case (Cons c cs)
  obtain tid where c: "c = CleanupTradeResources tid" by (cases c)
  have f: "filter (\<lambda>p. fst p \<notin> set (callback_ids cs)) (AList.delete tid d) =
           filter (\<lambda>p. fst p \<noteq> tid \<and> fst p \<notin> set (callback_ids cs)) d" for d :: "(string \<times> 'x) list"
    by (induction d) (auto simp: AList.delete_eq)
  show ?case
    by (simp add: c cleanup_trade_resources_eq Cons.IH f emit_def)
qed

lemma map_of_filter_keys:
  "map_of (filter (\<lambda>p. fst p \<notin> S) xs) k = (if k \<in> S then None else map_of xs k)"
  by (induction xs) auto

lemma cancel_trade_orders_eq:
  "cancel_trade_orders tid ex w =
     (case map_of (active_orders ex) tid of
        None \<Rightarrow> (True, ex, w)
      | Some task \<Rightarrow>
          (True, run_done_callbacks (done_callbacks task) ex
                   (emit (AwaitTask tid) (emit (CancelTask tid) w))))"
  by (simp add: cancel_trade_orders_def Let_def case_prod_beta split: option.splits)

lemma fst_cancel_trade_orders [simp]: "fst (cancel_trade_orders tid ex w)"
  by (simp add: cancel_trade_orders_eq split: option.splits)

lemma cancel_trade_orders_twice:
  "fst (snd (cancel_trade_orders tid (fst (snd (cancel_trade_orders tid ex w))) w')) =
   fst (snd (cancel_trade_orders tid ex w))"
proof (cases "map_of (active_orders ex) tid")
  case None
  then show ?thesis by (simp add: cancel_trade_orders_eq)
next
  case (Some task)
  show ?thesis
  proof (cases "tid \<in> set (callback_ids (done_callbacks task))")
    case True
    with Some show ?thesis
      by (simp add: cancel_trade_orders_eq run_done_callbacks_eq map_of_filter_keys)
  next
    case False
    with Some show ?thesis
      by (simp add: cancel_trade_orders_eq run_done_callbacks_eq map_of_filter_keys)
  qed
qed

lemma remove_active_trade_eq:
  "fst (remove_active_trade tid m w) = m\<lparr>active_trades := AList.delete tid (active_trades m)\<rparr>"
  by (simp add: remove_active_trade_def Let_def dict_contains_iff)

lemma cancel_trade_eq:
  "fst (cancel_trade tid m w) \<and>
   fst (snd (cancel_trade tid m w)) =
     m\<lparr>trade_executor := fst (snd (cancel_trade_orders tid (trade_executor m) w)),
       active_trades := AList.delete tid (active_trades m)\<rparr>"
  using fst_cancel_trade_orders [of tid "trade_executor m" w]
  by (simp add: cancel_trade_def Let_def case_prod_beta remove_active_trade_eq)

text \<open>
  Claim C6.  \<^verbatim>\<open>cancel_trade\<close> has no failing path and always answers \<^verbatim>\<open>True\<close>; it leaves
  the registry without the id.  On an id that is not in the registry the registry is
  unchanged, and when the id is not in the task map of the executor either, the whole
  manager is unchanged.  A second call on the same id answers \<^verbatim>\<open>True\<close> again and
  changes nothing: the manager after two calls is the manager after one.
\<close>

theorem cancel_trade_idempotent:
  "fst (cancel_trade tid m w) \<and>
   active_trades (fst (snd (cancel_trade tid m w))) = AList.delete tid (active_trades m) \<and>
   (\<not> dict_contains tid (active_trades m) \<longrightarrow>
      active_trades (fst (snd (cancel_trade tid m w))) = active_trades m) \<and>
   (\<not> dict_contains tid (active_trades m) \<and>
    \<not> dict_contains tid (active_orders (trade_executor m)) \<longrightarrow>
      fst (snd (cancel_trade tid m w)) = m) \<and>
   fst (cancel_trade tid (fst (snd (cancel_trade tid m w))) w') \<and>
   fst (snd (cancel_trade tid (fst (snd (cancel_trade tid m w))) w')) =
     fst (snd (cancel_trade tid m w))"
proof -
  have unknown: "fst (snd (cancel_trade tid m w)) = m"
    if "\<not> dict_contains tid (active_trades m)"
       "\<not> dict_contains tid (active_orders (trade_executor m))"
  proof -
    from that(2) have "map_of (active_orders (trade_executor m)) tid = None"
      by (simp add: dict_contains_map_of)
    then have "fst (snd (cancel_trade_orders tid (trade_executor m) w)) = trade_executor m"
      by (simp add: cancel_trade_orders_eq)
    with that(1) show ?thesis
      by (simp add: cancel_trade_eq dict_contains_iff)
  qed
  have twice: "fst (snd (cancel_trade tid (fst (snd (cancel_trade tid m w))) w')) =
     fst (snd (cancel_trade tid m w))"
    by (simp add: cancel_trade_eq cancel_trade_orders_twice delete_idem)
  show ?thesis
    using unknown twice by (simp add: cancel_trade_eq dict_contains_iff)
qed

theorem cancel_trade_idempotent_witness:
  "\<not> dict_contains ''nope'' (active_trades m0) \<and>
   \<not> dict_contains ''nope'' (active_orders (trade_executor m0)) \<and>
   fst (cancel_trade ''nope'' m0 w0) \<and> fst (snd (cancel_trade ''nope'' m0 w0)) = m0"
  using cancel_trade_idempotent [of "''nope''" m0 w0 w0]
  by (simp add: m0_def ex0_def dict_contains_def)

subsection \<open>Replaying traces\<close>

lemma foldl_lock_step_None [simp]: "foldl lock_step None tr = None"
  by (induction tr) simp_all

lemma foldl_lock_step_cleanup_logs [simp]:
  "foldl lock_step s (map (\<lambda>t. Log INFO (CleanedUp t)) ids) = s"
  by (induction ids arbitrary: s) (case_tac s; simp)+

lemma locks_released_Nil [simp]: "locks_released []"
  by (simp add: locks_released_def)


lemma lock_violation_append: "lock_violation xs \<Longrightarrow> lock_violation (xs @ ys)"
  by (simp add: lock_violation_def)







section \<open>The manager: registry frame and lock scope\<close>

lemma execute_new_trade_manager:
  fixes entry :: "'p::{plus,minus}"
  shows "fst (snd (execute_new_trade env symb sd qty entry slp tp m w)) =
     m\<lparr>trade_executor :=
         fst (snd (execute_trade env symb sd qty entry slp tp (trade_executor m)
                     (emit (Acquire TradeLock) w)))\<rparr>"
  by (simp add: execute_new_trade_def Let_def case_prod_beta)

lemma keys_delete_subset: "set (map fst (AList.delete k d)) \<subseteq> set (map fst d)"
  by (simp add: delete_keys)

text \<open>
  Claim C10.  \<^verbatim>\<open>execute_new_trade\<close> leaves the registry as it was, also when the executor
  reports success: the registry, the count and the overall status read afterwards are
  those read before.  \<^verbatim>\<open>add_active_trade\<close> is the operation that puts a trade into the
  registry; removing and cancelling only take ids away.
\<close>

theorem execute_new_trade_registry_unchanged:
  fixes entry :: "'p::{plus,minus}"
  shows "active_trades (fst (snd (execute_new_trade env symb sd qty entry slp tp m w))) =
           active_trades m \<and>
         fst (get_active_trades_count
                (fst (snd (execute_new_trade env symb sd qty entry slp tp m w))) w1) =
           fst (get_active_trades_count m w2) \<and>
         fst (get_overall_status
                (fst (snd (execute_new_trade env symb sd qty entry slp tp m w))) w1) =
           fst (get_overall_status m w2) \<and>
         map_of (active_trades (fst (add_active_trade trade m w))) (Trade.trade_id trade) =
           Some trade \<and>
         set (map fst (active_trades (fst (remove_active_trade tid m w)))) \<subseteq>
           set (map fst (active_trades m)) \<and>
         set (map fst (active_trades (fst (snd (cancel_trade tid m w))))) \<subseteq>
           set (map fst (active_trades m))"
proof -
  have r: "active_trades (fst (snd (execute_new_trade env symb sd qty entry slp tp m w))) =
           active_trades m"
    by (simp add: execute_new_trade_manager)
  have a: "map_of (active_trades (fst (add_active_trade trade m w))) (Trade.trade_id trade) =
           Some trade"
    by (simp add: add_active_trade_def Let_def update_conv')
  show ?thesis
    using r a keys_delete_subset [of tid "active_trades m"]
    by (simp add: get_active_trades_count_def get_overall_status_def get_active_trades_def
          Let_def remove_active_trade_eq cancel_trade_eq)
qed

subsection \<open>Which operations suspend with a registry lock held\<close>








section \<open>Reclaiming the resources of a monitoring task\<close>

lemma monitor_iteration_trace:
  "\<exists>evs. trace (snd (snd (monitor_iteration env trade w))) = trace w @ evs \<and>
         Log INFO (CleanedUp tid) \<notin> set evs"
  by (simp add: monitor_iteration_def Let_def case_prod_beta split: option.splits)

lemma monitor_loop_trace:
  "case monitor_loop n env trade w of
     Returned t' w' \<Rightarrow>
       (\<exists>evs. trace w' = trace w @ evs \<and> Log INFO (CleanedUp tid) \<notin> set evs)
   | Raised e t' w' \<Rightarrow>
       (\<exists>evs. trace w' = trace w @ evs \<and> Log INFO (CleanedUp tid) \<notin> set evs)
   | StillPolling t' w' \<Rightarrow>
       (\<exists>evs. trace w' = trace w @ evs \<and> Log INFO (CleanedUp tid) \<notin> set evs)"
proof (induction n arbitrary: trade w)
  case 0
  show ?case by simp
next
  case (Suc n)
  obtain f t1 w1 where it: "monitor_iteration env trade w = (f, t1, w1)"
    by (cases "monitor_iteration env trade w") auto
  obtain evs1 where e1: "trace w1 = trace w @ evs1" "Log INFO (CleanedUp tid) \<notin> set evs1"
    using monitor_iteration_trace [of env trade w tid] it by auto
  show ?case
  proof (cases "active trade")
    case False
    then show ?thesis by simp
  next
    case True
    show ?thesis
    proof (cases f)
      case Continue
      have "case monitor_loop n env t1 w1 of
           Returned t' w' \<Rightarrow>
             (\<exists>evs. trace w' = trace w @ evs \<and> Log INFO (CleanedUp tid) \<notin> set evs)
         | Raised e t' w' \<Rightarrow>
             (\<exists>evs. trace w' = trace w @ evs \<and> Log INFO (CleanedUp tid) \<notin> set evs)
         | StillPolling t' w' \<Rightarrow>
             (\<exists>evs. trace w' = trace w @ evs \<and> Log INFO (CleanedUp tid) \<notin> set evs)"
        using Suc.IH [where trade = t1 and w = w1] e1
        by (auto split: monitor_run.splits)
      with True it Continue show ?thesis by simp
    next
      case Break
      with True it e1 show ?thesis by simp
    next
      case Cancelled
      with True it e1 show ?thesis by simp
    qed
  qed
qed

lemma monitor_oco_orders_trace:
  "case monitor_oco_orders n env trade w of
     Returned t' w' \<Rightarrow>
       (\<exists>evs. trace w' = trace w @ evs \<and> Log INFO (CleanedUp tid) \<notin> set evs)
   | Raised e t' w' \<Rightarrow>
       (\<exists>evs. trace w' = trace w @ evs \<and> Log INFO (CleanedUp tid) \<notin> set evs)
   | StillPolling t' w' \<Rightarrow>
       (\<exists>evs. trace w' = trace w @ evs \<and> Log INFO (CleanedUp tid) \<notin> set evs)"
  using monitor_loop_trace
    [where n = n and env = env and trade = trade and tid = tid
       and w = "emit (Log INFO (StartingMonitoring (Trade.trade_id trade))) w"]
  by (auto simp: monitor_oco_orders_def split: monitor_run.splits)

lemma start_order_monitoring_maps:
  "active_orders (start_order_monitoring trade ex) =
     AList.update (Trade.trade_id trade)
       \<lparr>task_trade = trade, done_callbacks = [CleanupTradeResources (Trade.trade_id trade)]\<rparr>
       (active_orders ex)"
  "trade_locks (start_order_monitoring trade ex) =
     AList.update (Trade.trade_id trade) () (trade_locks ex)"
  by (simp_all add: start_order_monitoring_def Let_def)

lemma dict_contains_update [simp]: "dict_contains k (AList.update k v d)"
  by (simp add: dict_contains_map_of update_conv')

lemma run_task_cleanup:
  assumes "run_task n env \<lparr>task_trade = trade, done_callbacks = [CleanupTradeResources tid]\<rparr>
             ex w = Some (c, t', ex2, w2)"
  shows "ex2 = ex\<lparr>active_orders := AList.delete tid (active_orders ex),
                  trade_locks := AList.delete tid (trade_locks ex)\<rparr> \<and>
         (\<exists>evs. trace w2 = trace w @ evs @ [Log INFO (CleanedUp tid)] \<and>
                Log INFO (CleanedUp tid) \<notin> set evs)"
  using assms monitor_oco_orders_trace [where n = n and env = env and trade = trade and w = w and tid = tid]
  by (auto simp: run_task_def cleanup_trade_resources_eq split: monitor_run.splits)

lemma cancel_started_task:
  "cancel_trade_orders (Trade.trade_id trade) (start_order_monitoring trade ex) w =
     (True,
      (start_order_monitoring trade ex)
        \<lparr>active_orders := AList.delete (Trade.trade_id trade) (active_orders ex),
         trade_locks := AList.delete (Trade.trade_id trade) (trade_locks ex)\<rparr>,
      w\<lparr>trace := trace w @ [CancelTask (Trade.trade_id trade), AwaitTask (Trade.trade_id trade),
                            Log INFO (CleanedUp (Trade.trade_id trade))]\<rparr>)"
  by (simp add: cancel_trade_orders_eq cleanup_trade_resources_eq start_order_monitoring_maps
        update_conv' delete_update_same emit_def)

lemma execute_trade_executor:
  fixes entry :: "'p::{plus,minus}"
  shows
   "(\<exists>result trade.
       fst (execute_trade env symb sd qty entry slp tp ex w) = Inr result \<and> success result \<and>
       TradeResult.trade_id result = Some (Trade.trade_id trade) \<and>
       fst (snd (execute_trade env symb sd qty entry slp tp ex w)) =
         start_order_monitoring trade ex) \<or>
    ((\<forall>result. fst (execute_trade env symb sd qty entry slp tp ex w) = Inr result \<longrightarrow>
         \<not> success result) \<and>
     fst (snd (execute_trade env symb sd qty entry slp tp ex w)) = ex)"
  unfolding execute_trade_def Let_def case_prod_beta
  by (simp add: TradeResult_init_def) blast

lemma submit_resolve_cycles_empty:
  fixes env :: "('g, 'p::{plus,minus}) Env"
  assumes "submit_resolve_cycles n env args ex w = Some (ex', w')"
    and "active_orders ex = []" and "trade_locks ex = []"
  shows "active_orders ex' = [] \<and> trade_locks ex' = []"
  using assms
proof (induction args arbitrary: ex w)
  case Nil
  then show ?case by simp
next
  case (Cons a args)
  obtain symb sd qty entry slp tp where a: "a = (symb, sd, qty, entry, slp, tp)"
    by (cases a) auto
  obtain r ex1 w1 where x: "execute_trade env symb sd qty entry slp tp ex w = (r, ex1, w1)"
    by (cases "execute_trade env symb sd qty entry slp tp ex w") auto
  from execute_trade_executor [of env symb sd qty entry slp tp ex w] x
  consider (started) result trade where "r = Inr result" "success result"
      "TradeResult.trade_id result = Some (Trade.trade_id trade)"
      "ex1 = start_order_monitoring trade ex"
    | (failed) "\<forall>result. r = Inr result \<longrightarrow> \<not> success result" "ex1 = ex"
    by auto
  then show ?case
  proof cases
    case started
    let ?tid = "Trade.trade_id trade"
    let ?task = "\<lparr>task_trade = trade, done_callbacks = [CleanupTradeResources ?tid]\<rparr>"
    have look: "map_of (active_orders ex1) (str_of (TradeResult.trade_id result)) = Some ?task"
      using started(3,4) by simp
    from Cons.prems(1) a x started(1,2) look
    obtain c t' ex2 w2 where run: "run_task n env ?task ex1 w1 = Some (c, t', ex2, w2)"
      and rest: "submit_resolve_cycles n env args ex2 w2 = Some (ex', w')"
      by (auto split: option.splits)
    have "active_orders ex2 = [] \<and> trade_locks ex2 = []"
      using run_task_cleanup [OF run] started(4) Cons.prems(2,3)
      by (simp add: start_order_monitoring_maps)
    with Cons.IH [OF rest] show ?thesis by simp
  next
    case failed
    have rest: "submit_resolve_cycles n env args ex w1 = Some (ex', w')"
    proof (cases r)
      case (Inl e)
      with Cons.prems(1) a x failed(2) show ?thesis by simp
    next
      case (Inr result)
      with failed(1) have "\<not> success result" by simp
      with Cons.prems(1) a x failed(2) Inr show ?thesis by simp
    qed
    from Cons.IH [OF rest Cons.prems(2,3)] show ?thesis .
  qed
qed

text \<open>
  Claim C9.  \<^verbatim>\<open>start_order_monitoring\<close> stores the task under the id of the trade, with
  the cleanup of that id as its one done callback, and allocates the lock of the trade.
  When the task is done, whether the monitor returned (\<open>c = False\<close>) or was cancelled at
  a sleep (\<open>c = True\<close>), the id is in neither map any more and the cleanup was logged
  exactly once since the task was started; the same holds after \<^verbatim>\<open>cancel_trade_orders\<close>.
  So after any number of sequential submit/resolve cycles that begin with empty maps,
  both maps are empty again.
\<close>

theorem monitor_task_cleanup:
  fixes env :: "('g, 'p::{plus,minus}) Env"
  shows
   "map_of (active_orders (start_order_monitoring trade ex)) (Trade.trade_id trade) =
      Some \<lparr>task_trade = trade,
            done_callbacks = [CleanupTradeResources (Trade.trade_id trade)]\<rparr> \<and>
    dict_contains (Trade.trade_id trade) (trade_locks (start_order_monitoring trade ex)) \<and>
    (run_task n env
        \<lparr>task_trade = trade, done_callbacks = [CleanupTradeResources (Trade.trade_id trade)]\<rparr>
        (start_order_monitoring trade ex) w = Some (c, t', exb, wb) \<longrightarrow>
       \<not> dict_contains (Trade.trade_id trade) (active_orders exb) \<and>
       \<not> dict_contains (Trade.trade_id trade) (trade_locks exb) \<and>
       (\<exists>evs. trace wb = trace w @ evs @ [Log INFO (CleanedUp (Trade.trade_id trade))] \<and>
              Log INFO (CleanedUp (Trade.trade_id trade)) \<notin> set evs)) \<and>
    (\<exists>ex3 w3.
       cancel_trade_orders (Trade.trade_id trade) (start_order_monitoring trade ex) wc =
         (True, ex3, w3) \<and>
       \<not> dict_contains (Trade.trade_id trade) (active_orders ex3) \<and>
       \<not> dict_contains (Trade.trade_id trade) (trade_locks ex3) \<and>
       trace w3 = trace wc @ [CancelTask (Trade.trade_id trade),
                              AwaitTask (Trade.trade_id trade),
                              Log INFO (CleanedUp (Trade.trade_id trade))]) \<and>
    (active_orders exa = [] \<and> trade_locks exa = [] \<and>
     submit_resolve_cycles k env args exa wa = Some (ex', w') \<longrightarrow>
       active_orders ex' = [] \<and> trade_locks ex' = [])"
proof -
  let ?tid = "Trade.trade_id trade"
  let ?task = "\<lparr>task_trade = trade, done_callbacks = [CleanupTradeResources ?tid]\<rparr>"
  have 1: "map_of (active_orders (start_order_monitoring trade ex)) ?tid = Some ?task"
    by simp
  have 2: "dict_contains ?tid (trade_locks (start_order_monitoring trade ex))"
    by (simp add: start_order_monitoring_maps)
  have 3: "\<not> dict_contains ?tid (active_orders exb) \<and>
       \<not> dict_contains ?tid (trade_locks exb) \<and>
       (\<exists>evs. trace wb = trace w @ evs @ [Log INFO (CleanedUp ?tid)] \<and>
              Log INFO (CleanedUp ?tid) \<notin> set evs)"
    if "run_task n env ?task (start_order_monitoring trade ex) w = Some (c, t', exb, wb)"
    using run_task_cleanup [OF that] by simp
  have 4: "\<exists>ex3 w3.
       cancel_trade_orders ?tid (start_order_monitoring trade ex) wc = (True, ex3, w3) \<and>
       \<not> dict_contains ?tid (active_orders ex3) \<and>
       \<not> dict_contains ?tid (trade_locks ex3) \<and>
       trace w3 = trace wc @ [CancelTask ?tid, AwaitTask ?tid, Log INFO (CleanedUp ?tid)]"
    by (simp add: cancel_started_task)
  have 5: "active_orders ex' = [] \<and> trade_locks ex' = []"
    if "active_orders exa = []" "trade_locks exa = []"
       "submit_resolve_cycles k env args exa wa = Some (ex', w')"
    using submit_resolve_cycles_empty [OF that(3) that(1,2)] .
  from 1 2 3 4 5 show ?thesis by blast
qed

text \<open>Two submit/resolve cycles against a gateway that reports both exit legs filled.\<close>

lemma demo_run_task:
  "\<exists>c t' ex2 w2.
     run_task (Suc 0) both_filled_env
       \<lparr>task_trade = demo_trade,
        done_callbacks = [CleanupTradeResources (Trade.trade_id demo_trade)]\<rparr>
       (start_order_monitoring demo_trade ex0) w0 = Some (c, t', ex2, w2)"
  by (simp add: run_task_def monitor_oco_orders_def monitor_iteration_def Let_def
        client_get_order_status_def both_filled_env_def demo_env_def demo_trade_ids
        terminal_filled_def still_live_def filled_status_def cleanup_trade_resources_eq)
     blast

lemma demo_cycles:
  "\<exists>ex' w'. submit_resolve_cycles (Suc 0) both_filled_env
      [(''XYZ'', BUY, 10, 100, 5, 10), (''XYZ'', SELL, 10, 100, 5, 10)] ex0 w0 = Some (ex', w')"
  by (simp add: execute_trade_def Let_def Order_init_def Trade_init_def new_uuid_def
        client_place_order_def asyncio_sleep_def TradeResult_init_def
        start_order_monitoring_def
        run_task_def monitor_oco_orders_def monitor_iteration_def
        client_get_order_status_def both_filled_env_def demo_env_def
        terminal_filled_def still_live_def filled_status_def cleanup_trade_resources_eq
        w0_def ex0_def emit_def)

theorem monitor_task_cleanup_witness:
  "(\<exists>c t' ex2 w2.
      run_task (Suc 0) both_filled_env
        \<lparr>task_trade = demo_trade,
         done_callbacks = [CleanupTradeResources (Trade.trade_id demo_trade)]\<rparr>
        (start_order_monitoring demo_trade ex0) w0 = Some (c, t', ex2, w2) \<and>
      \<not> dict_contains (Trade.trade_id demo_trade) (active_orders ex2) \<and>
      \<not> dict_contains (Trade.trade_id demo_trade) (trade_locks ex2)) \<and>
   (\<exists>ex' w'. active_orders ex0 = [] \<and> trade_locks ex0 = [] \<and>
      submit_resolve_cycles (Suc 0) both_filled_env
        [(''XYZ'', BUY, 10, 100, 5, 10), (''XYZ'', SELL, 10, 100, 5, 10)] ex0 w0 = Some (ex', w')
      \<and> active_orders ex' = [] \<and> trade_locks ex' = [])"
proof -
  obtain c t' ex2 w2 where r:
    "run_task (Suc 0) both_filled_env
        \<lparr>task_trade = demo_trade,
         done_callbacks = [CleanupTradeResources (Trade.trade_id demo_trade)]\<rparr>
        (start_order_monitoring demo_trade ex0) w0 = Some (c, t', ex2, w2)"
    using demo_run_task by blast
  obtain ex' w' where s:
    "submit_resolve_cycles (Suc 0) both_filled_env
        [(''XYZ'', BUY, 10, 100, 5, 10), (''XYZ'', SELL, 10, 100, 5, 10)] ex0 w0 = Some (ex', w')"
    using demo_cycles by blast
  have e: "active_orders ex0 = []" "trade_locks ex0 = []"
    by (simp_all add: ex0_def)
  from monitor_task_cleanup
    [where trade = demo_trade and ex = ex0 and n = "Suc 0" and env = both_filled_env
       and w = w0 and c = c and t' = t' and exb = ex2 and wb = w2
       and exa = ex0 and k = "Suc 0" and wa = w0 and ex' = ex' and w' = w'
       and args = "[(''XYZ'', BUY, 10, 100, 5, 10), (''XYZ'', SELL, 10, 100, 5, 10)]"]
    r s e
  show ?thesis by blast
qed

end
